theory Spec2Isabelle
  imports Complex_Main
begin

section \<open>Travel utilities: great-circle distance and travel time\<close>

text \<open>
  A shallow embedding of \<^verbatim>\<open>travel_utils.py\<close>. The module has three pure functions over
  Python floats. Every \<^verbatim>\<open>raise\<close> of the source, and of the \<^verbatim>\<open>math\<close> functions it
  calls, is a value \<open>Inl e\<close> of the result type.

  Numbers are modelled as mathematical reals: each operation is exact, where the source
  computes in IEEE doubles and rounds. Rounding matters in one place. The source passes
  the intermediate value \<^verbatim>\<open>a\<close> of \<^verbatim>\<open>haversine\<close> to \<^verbatim>\<open>math.sqrt\<close> and \<^verbatim>\<open>math.asin\<close>
  without clamping it. Over the reals \<open>a\<close> lies in \<open>[0, 1]\<close> (lemma \<open>hav_a_bounds\<close>);
  in doubles the computed \<open>a\<close> can fall just outside, and then the source raises. The
  statements about the result of \<^verbatim>\<open>haversine\<close> are therefore made for the case that it
  returns, and they are proved from the domain checks of \<^verbatim>\<open>math.sqrt\<close> and \<^verbatim>\<open>math.asin\<close>
  alone, for an arbitrary value of \<open>a\<close> (lemma \<open>haversine_of_a_Inr\<close>), not from the
  bound on \<open>a\<close>.
\<close>

subsection \<open>Errors\<close>

text \<open>
  The only exception class in play is Python's \<^verbatim>\<open>ValueError\<close>, carrying its message:
  \<^verbatim>\<open>travel_time_s\<close> raises it with \<^verbatim>\<open>"Speed must be positive"\<close>, and \<^verbatim>\<open>math.sqrt\<close> and
  \<^verbatim>\<open>math.asin\<close> raise it with \<^verbatim>\<open>"math domain error"\<close> outside their domains.
\<close>

datatype error = ValueError string

subsection \<open>The functions of the \<^verbatim>\<open>math\<close> module the source calls\<close>

definition math_radians :: "real \<Rightarrow> real" where
  "math_radians x = x * (pi / 180)"

definition math_sqrt :: "real \<Rightarrow> error + real" where
  "math_sqrt x = (if x < 0 then Inl (ValueError ''math domain error'') else Inr (sqrt x))"

definition math_asin :: "real \<Rightarrow> error + real" where
  "math_asin x =
     (if x < - 1 \<or> 1 < x then Inl (ValueError ''math domain error'') else Inr (arcsin x))"

subsection \<open>\<^verbatim>\<open>travel_time_s\<close>\<close>

definition travel_time_s :: "real \<Rightarrow> real \<Rightarrow> error + real" where
  "travel_time_s dist_km speed_kmh =
     (if speed_kmh \<le> 0 then Inl (ValueError ''Speed must be positive'')
      else
        let time_hours = dist_km / speed_kmh;
            time_seconds = time_hours * 3600
        in Inr time_seconds)"

subsection \<open>\<^verbatim>\<open>haversine\<close>\<close>

text \<open>
  The source rebinds \<^verbatim>\<open>lat1, lon1, lat2, lon2\<close> to their values in radians; the model
  rebinds the same names in the same order. The calls \<^verbatim>\<open>math.sqrt(a)\<close> and
  \<^verbatim>\<open>math.asin(...)\<close> may raise, so each is a branch.
\<close>

definition haversine :: "real \<Rightarrow> real \<Rightarrow> real \<Rightarrow> real \<Rightarrow> error + real" where
  "haversine lat1 lon1 lat2 lon2 =
     (let lat1 = math_radians lat1;
          lon1 = math_radians lon1;
          lat2 = math_radians lat2;
          lon2 = math_radians lon2;
          dlon = lon2 - lon1;
          dlat = lat2 - lat1;
          a = (sin (dlat / 2)) ^ 2 + cos lat1 * cos lat2 * (sin (dlon / 2)) ^ 2
      in case math_sqrt a of
           Inl e \<Rightarrow> Inl e
         | Inr s \<Rightarrow>
             (case math_asin s of
                Inl e \<Rightarrow> Inl e
              | Inr angle \<Rightarrow>
                  (let c = 2 * angle;
                       r = 6371
                   in Inr (c * r))))"

text \<open>
  The body in two parts, so that lemmas can speak about each: \<open>hav_a\<close> is the
  expression the source binds to \<^verbatim>\<open>a\<close>, evaluated exactly, and \<open>haversine_of_a\<close> is the
  rest of the body (the calls of \<^verbatim>\<open>math.sqrt\<close> and \<^verbatim>\<open>math.asin\<close>, and the scaling by
  \<open>r\<close>) applied to a given value of \<^verbatim>\<open>a\<close>. Lemma \<open>haversine_via_a\<close> shows that
  \<open>haversine\<close> is the second applied to the first.
\<close>

definition hav_a :: "real \<Rightarrow> real \<Rightarrow> real \<Rightarrow> real \<Rightarrow> real" where
  "hav_a lat1 lon1 lat2 lon2 =
     (sin ((math_radians lat2 - math_radians lat1) / 2)) ^ 2
       + cos (math_radians lat1) * cos (math_radians lat2)
           * (sin ((math_radians lon2 - math_radians lon1) / 2)) ^ 2"

definition haversine_of_a :: "real \<Rightarrow> error + real" where
  "haversine_of_a a =
     (case math_sqrt a of
        Inl e \<Rightarrow> Inl e
      | Inr s \<Rightarrow>
          (case math_asin s of
             Inl e \<Rightarrow> Inl e
           | Inr angle \<Rightarrow>
               (let c = 2 * angle;
                    r = 6371
                in Inr (c * r))))"

subsection \<open>\<^verbatim>\<open>distance_and_time\<close>\<close>

definition distance_and_time ::
    "real \<Rightarrow> real \<Rightarrow> real \<Rightarrow> real \<Rightarrow> real \<Rightarrow> error + (real \<times> real)" where
  "distance_and_time lat1 lon1 lat2 lon2 speed_kmh =
     (case haversine lat1 lon1 lat2 lon2 of
        Inl e \<Rightarrow> Inl e
      | Inr dist_km \<Rightarrow>
          (case travel_time_s dist_km speed_kmh of
             Inl e \<Rightarrow> Inl e
           | Inr time_s \<Rightarrow> Inr (dist_km, time_s)))"

subsection \<open>The algorithm as the specification words it\<close>


section \<open>Properties\<close>

subsection \<open>Half-angle facts\<close>

lemma sin_sq_half:
  fixes x :: real
  shows "(sin (x / 2))\<^sup>2 = (1 - cos x) / 2"
proof -
  have "cos (2 * (x / 2)) = 1 - 2 * (sin (x / 2))\<^sup>2"
    by (rule cos_double_sin)
  then show ?thesis by simp
qed

lemma cos_sq_half:
  fixes x :: real
  shows "(cos (x / 2))\<^sup>2 = (1 + cos x) / 2"
proof -
  have "cos (2 * (x / 2)) = 2 * (cos (x / 2))\<^sup>2 - 1"
    by (rule cos_double_cos)
  then show ?thesis by simp
qed

lemma sin_cos_half_identity:
  fixes p q :: real
  shows "(sin ((q - p) / 2))\<^sup>2 + cos p * cos q = (cos ((p + q) / 2))\<^sup>2"
proof -
  have m: "cos p * cos q = (cos (q - p) + cos (p + q)) / 2"
    by (simp add: cos_add cos_diff)
  show ?thesis
    unfolding sin_sq_half cos_sq_half m by (simp add: field_simps)
qed

lemma sin_sq_unit: "0 \<le> (sin (x::real))\<^sup>2 \<and> (sin x)\<^sup>2 \<le> 1"
  by (simp add: abs_square_le_1)

lemma cos_sq_unit: "0 \<le> (cos (x::real))\<^sup>2 \<and> (cos x)\<^sup>2 \<le> 1"
  by (simp add: abs_square_le_1)

lemma convex_unit:
  fixes x y t :: real
  assumes "0 \<le> x" "x \<le> 1" "0 \<le> y" "y \<le> 1" "0 \<le> t" "t \<le> 1"
  shows "0 \<le> (1 - t) * x + t * y" and "(1 - t) * x + t * y \<le> 1"
proof -
  show "0 \<le> (1 - t) * x + t * y" using assms by simp
  have "(1 - t) * x \<le> (1 - t) * 1" using assms by (intro mult_left_mono) simp_all
  moreover have "t * y \<le> t * 1" using assms by (intro mult_left_mono) simp_all
  ultimately show "(1 - t) * x + t * y \<le> 1" by simp
qed

subsection \<open>The two parts of \<^verbatim>\<open>haversine\<close>\<close>

lemma haversine_via_a:
  "haversine lat1 lon1 lat2 lon2 = haversine_of_a (hav_a lat1 lon1 lat2 lon2)"
  by (simp add: haversine_def haversine_of_a_def hav_a_def Let_def)

text \<open>
  What a returned value says about \<open>a\<close>: \<^verbatim>\<open>math.sqrt\<close> accepted it, so \<open>0 \<le> a\<close>;
  \<^verbatim>\<open>math.asin\<close> accepted the root, so \<open>sqrt a \<le> 1\<close>. This holds for every \<open>a\<close>.
\<close>

lemma haversine_of_a_Inr:
  assumes "haversine_of_a a = Inr d"
  shows "0 \<le> a \<and> sqrt a \<le> 1 \<and> d = 2 * arcsin (sqrt a) * 6371"
proof -
  have a0: "0 \<le> a"
    using assms by (auto simp: haversine_of_a_def math_sqrt_def split: if_splits)
  then have root: "math_sqrt a = Inr (sqrt a)"
    by (simp add: math_sqrt_def)
  have s1: "sqrt a \<le> 1"
    using assms unfolding haversine_of_a_def root
    by (auto simp: math_asin_def split: if_splits)
  have "0 \<le> sqrt a" using a0 by simp
  then have "\<not> (sqrt a < - 1 \<or> 1 < sqrt a)" using s1 by linarith
  then have "math_asin (sqrt a) = Inr (arcsin (sqrt a))"
    unfolding math_asin_def by (simp only: if_False)
  then have "d = 2 * arcsin (sqrt a) * 6371"
    using assms unfolding haversine_of_a_def root by (simp add: Let_def)
  with a0 s1 show ?thesis by blast
qed

lemma haversine_of_a_range:
  assumes "haversine_of_a a = Inr d"
  shows "0 \<le> d \<and> d \<le> pi * 6371"
proof -
  from haversine_of_a_Inr [OF assms]
  have a0: "0 \<le> a" and s1: "sqrt a \<le> 1" and d: "d = 2 * arcsin (sqrt a) * 6371"
    by blast+
  have s0: "0 \<le> sqrt a" using a0 by simp
  have m: "- 1 \<le> sqrt a" using s0 by linarith
  have "arcsin 0 \<le> arcsin (sqrt a)"
    by (rule arcsin_le_arcsin [OF _ s0 s1]) simp
  then have lo: "0 \<le> arcsin (sqrt a)" by simp
  have hi: "arcsin (sqrt a) \<le> pi / 2"
    by (rule arcsin_ubound [OF m s1])
  show ?thesis unfolding d using lo hi by simp
qed

lemma haversine_of_a_zero: "haversine_of_a 0 = Inr 0"
  by (simp add: haversine_of_a_def math_sqrt_def math_asin_def)

lemma haversine_of_a_one: "haversine_of_a 1 = Inr (pi * 6371)"
  by (simp add: haversine_of_a_def math_sqrt_def math_asin_def)

text \<open>
  A negative \<open>a\<close>, however small, is refused by \<^verbatim>\<open>math.sqrt\<close>.
\<close>

lemma haversine_of_a_negative:
  "a < 0 \<Longrightarrow> haversine_of_a a = Inl (ValueError ''math domain error'')"
  by (simp add: haversine_of_a_def math_sqrt_def)

subsection \<open>Over the reals, \<open>a\<close> lies in the unit interval\<close>

text \<open>
  With \<open>t = sin\<^sup>2 (dlon / 2)\<close>, the exact value of \<open>a\<close> is the convex combination
  \<open>(1 - t) sin\<^sup>2 (dlat / 2) + t cos\<^sup>2 ((lat1 + lat2) / 2)\<close>. This holds for all
  latitudes, also those outside \<open>[-90, 90]\<close> where \<open>cos lat1 * cos lat2\<close> is negative.
  It is a fact of exact arithmetic only: at latitudes 91 and 89 with longitudes 0 and
  180 the exact value is \<open>0\<close>, and the double the source computes is \<open>-2\<^sup>-\<^sup>6\<^sup>4\<close>.
\<close>

lemma hav_a_convex:
  "hav_a lat1 lon1 lat2 lon2 =
     (1 - (sin ((math_radians lon2 - math_radians lon1) / 2))\<^sup>2)
        * (sin ((math_radians lat2 - math_radians lat1) / 2))\<^sup>2
     + (sin ((math_radians lon2 - math_radians lon1) / 2))\<^sup>2
        * (cos ((math_radians lat1 + math_radians lat2) / 2))\<^sup>2"
  unfolding hav_a_def
    sin_cos_half_identity [of "math_radians lat2" "math_radians lat1", symmetric]
  by (simp add: algebra_simps)

lemma hav_a_bounds: "0 \<le> hav_a lat1 lon1 lat2 lon2 \<and> hav_a lat1 lon1 lat2 lon2 \<le> 1"
  unfolding hav_a_convex
  using convex_unit [OF conjunct1 [OF sin_sq_unit] conjunct2 [OF sin_sq_unit]
     conjunct1 [OF cos_sq_unit] conjunct2 [OF cos_sq_unit]
     conjunct1 [OF sin_sq_unit] conjunct2 [OF sin_sq_unit]]
  by blast

lemma hav_a_exact_at_91_89: "hav_a 91 0 89 180 = 0"
proof -
  have "hav_a 91 0 89 180 = (cos ((math_radians 91 + math_radians 89) / 2))\<^sup>2"
    unfolding hav_a_convex by (simp add: math_radians_def)
  also have "(math_radians 91 + math_radians 89) / 2 = pi / 2"
    by (simp add: math_radians_def)
  finally show ?thesis by simp
qed

subsection \<open>Symmetries of \<open>a\<close>\<close>

lemma hav_a_commute: "hav_a lat1 lon1 lat2 lon2 = hav_a lat2 lon2 lat1 lon1"
proof -
  have d: "cos (x - y) = cos (y - x)" for x y :: real
    using cos_minus [of "x - y"] by simp
  show ?thesis
    unfolding hav_a_def sin_sq_half
    by (simp add: d [of "math_radians lat1" "math_radians lat2"]
        d [of "math_radians lon1" "math_radians lon2"] mult.commute)
qed

lemma hav_a_same_point: "hav_a lat lon lat lon = 0"
  by (simp add: hav_a_def)

lemma hav_a_antipodal: "hav_a 0 0 0 180 = 1"
  by (simp add: hav_a_def math_radians_def)

lemma haversine_antipodal: "haversine 0 0 0 180 = Inr (pi * 6371)"
  by (simp add: haversine_via_a hav_a_antipodal haversine_of_a_one)

lemma math_radians_full_turn: "math_radians (x + 360) = math_radians x + 2 * pi"
  by (simp add: math_radians_def algebra_simps)

lemma hav_a_lon1_full_turn: "hav_a lat1 (lon1 + 360) lat2 lon2 = hav_a lat1 lon1 lat2 lon2"
proof -
  have "cos (math_radians lon2 - (math_radians lon1 + 2 * pi))
      = cos (math_radians lon2 - math_radians lon1 - 2 * pi)"
    by (simp add: algebra_simps)
  also have "\<dots> = cos (math_radians lon2 - math_radians lon1)"
    using cos_periodic [of "math_radians lon2 - math_radians lon1 - 2 * pi"] by simp
  finally show ?thesis
    unfolding hav_a_def sin_sq_half math_radians_full_turn by simp
qed

lemma hav_a_lon2_full_turn: "hav_a lat1 lon1 lat2 (lon2 + 360) = hav_a lat1 lon1 lat2 lon2"
proof -
  have "cos (math_radians lon2 + 2 * pi - math_radians lon1)
      = cos (math_radians lon2 - math_radians lon1 + 2 * pi)"
    by (simp add: algebra_simps)
  also have "\<dots> = cos (math_radians lon2 - math_radians lon1)"
    by (rule cos_periodic)
  finally show ?thesis
    unfolding hav_a_def sin_sq_half math_radians_full_turn by simp
qed

subsection \<open>The two branches of \<^verbatim>\<open>travel_time_s\<close>\<close>

lemma travel_time_s_pos:
  "0 < speed_kmh \<Longrightarrow> travel_time_s dist_km speed_kmh = Inr (dist_km / speed_kmh * 3600)"
  by (simp add: travel_time_s_def Let_def)

lemma travel_time_s_nonpos:
  "speed_kmh \<le> 0 \<Longrightarrow>
     travel_time_s dist_km speed_kmh = Inl (ValueError ''Speed must be positive'')"
  by (simp add: travel_time_s_def)

subsection \<open>\<^verbatim>\<open>distance_and_time\<close> by the outcome of \<^verbatim>\<open>haversine\<close>\<close>

text \<open>
  \<^verbatim>\<open>haversine\<close> is called first. An error it raises leaves \<^verbatim>\<open>distance_and_time\<close>
  before the speed is looked at.
\<close>

lemma distance_and_time_haversine_error:
  "haversine lat1 lon1 lat2 lon2 = Inl e \<Longrightarrow>
     distance_and_time lat1 lon1 lat2 lon2 speed_kmh = Inl e"
  by (simp add: distance_and_time_def)

lemma distance_and_time_Inr:
  assumes "distance_and_time lat1 lon1 lat2 lon2 speed_kmh = Inr (d, t)"
  shows "haversine lat1 lon1 lat2 lon2 = Inr d \<and> travel_time_s d speed_kmh = Inr t"
  using assms by (auto simp: distance_and_time_def split: sum.splits)

section \<open>The claims\<close>



text \<open>
  C2. \<^verbatim>\<open>travel_time_s\<close> raises its error if and only if \<open>speed_kmh \<le> 0\<close>; the error
  is the \<^verbatim>\<open>ValueError\<close> "Speed must be positive"; and for every \<open>speed_kmh > 0\<close> it
  returns \<open>dist_km / speed_kmh \<times> 3600\<close> for every real \<open>dist_km\<close>, negative ones
  included.
\<close>

theorem travel_time_s_contract:
  "((\<exists>e. travel_time_s dist_km speed_kmh = Inl e) \<longleftrightarrow> speed_kmh \<le> 0)
   \<and> (speed_kmh \<le> 0 \<longrightarrow>
        travel_time_s dist_km speed_kmh = Inl (ValueError ''Speed must be positive''))
   \<and> (0 < speed_kmh \<longrightarrow>
        travel_time_s dist_km speed_kmh = Inr (dist_km / speed_kmh * 3600))"
  by (simp add: travel_time_s_def Let_def)

theorem travel_time_s_contract_witness:
  "(0::real) < 50 \<and> travel_time_s (- 100) 50 = Inr (- 7200)
   \<and> (0::real) \<le> 0 \<and> travel_time_s 100 0 = Inl (ValueError ''Speed must be positive'')
   \<and> (- 3::real) \<le> 0 \<and> (\<exists>e. travel_time_s 100 (- 3) = Inl e)"
  using travel_time_s_contract [of "- 100" 50] travel_time_s_contract [of 100 0]
    travel_time_s_contract [of 100 "- 3"]
  by simp

text \<open>
  C3. \<^verbatim>\<open>distance_and_time\<close> is the composition of the two functions and validates
  nothing itself. Where \<^verbatim>\<open>haversine\<close> returns the distance \<open>d\<close>: for \<open>speed_kmh > 0\<close>
  the result is the pair of \<open>d\<close> and \<^verbatim>\<open>travel_time_s d speed_kmh\<close>, and for
  \<open>speed_kmh \<le> 0\<close> it is exactly the error \<^verbatim>\<open>travel_time_s\<close> raised on \<open>d\<close>, the
  \<^verbatim>\<open>ValueError\<close> "Speed must be positive". (Where \<^verbatim>\<open>haversine\<close> raises, lemma
  \<open>distance_and_time_haversine_error\<close> applies.)
\<close>

theorem distance_and_time_composition:
  "haversine lat1 lon1 lat2 lon2 = Inr d \<Longrightarrow>
     (0 < speed_kmh \<longrightarrow>
        (\<exists>t. travel_time_s d speed_kmh = Inr t
           \<and> distance_and_time lat1 lon1 lat2 lon2 speed_kmh = Inr (d, t)))
     \<and> (speed_kmh \<le> 0 \<longrightarrow>
        (\<exists>e. travel_time_s d speed_kmh = Inl e
           \<and> e = ValueError ''Speed must be positive''
           \<and> distance_and_time lat1 lon1 lat2 lon2 speed_kmh = Inl e))"
  by (simp add: distance_and_time_def travel_time_s_pos travel_time_s_nonpos)

theorem distance_and_time_composition_witness:
  "haversine 0 0 0 180 = Inr (pi * 6371)
   \<and> (0::real) < 100
   \<and> distance_and_time 0 0 0 180 100 = Inr (pi * 6371, pi * 6371 / 100 * 3600)
   \<and> (0::real) \<le> 0
   \<and> distance_and_time 0 0 0 180 0 = Inl (ValueError ''Speed must be positive'')"
  using distance_and_time_composition [OF haversine_antipodal, of 100]
    distance_and_time_composition [OF haversine_antipodal, of 0]
    haversine_antipodal
  by (simp add: travel_time_s_pos)

text \<open>
  C4. The claim is that \<^verbatim>\<open>haversine\<close> raises no error for any inputs, because \<open>a\<close>
  lies in \<open>[0, 1]\<close>. That bound is a fact of exact arithmetic (lemma \<open>hav_a_bounds\<close>),
  and the source relies on it without clamping \<open>a\<close>. In doubles
  \<^verbatim>\<open>haversine(91, 0, 89, 180)\<close> computes \<open>a = -2\<^sup>-\<^sup>6\<^sup>4\<close> where the exact value is \<open>0\<close>
  (lemma \<open>hav_a_exact_at_91_89\<close>), and the rest of the body raises at that value:
\<close>

theorem haversine_raises_at_rounded_a:
  "haversine_of_a (- (1 / 2 ^ 64)) = Inl (ValueError ''math domain error'')"
  by (simp add: haversine_of_a_def math_sqrt_def)

text \<open>
  C5. The output of \<^verbatim>\<open>haversine\<close> lies in the closed interval \<open>[0, \<pi> \<times> 6371]\<close>:
  whenever it returns a value, for whatever real inputs, the value is in that interval,
  and in particular not negative.
\<close>

theorem haversine_range:
  "haversine lat1 lon1 lat2 lon2 = Inr d \<Longrightarrow> 0 \<le> d \<and> d \<le> pi * 6371"
  using haversine_of_a_range [of "hav_a lat1 lon1 lat2 lon2" d]
  by (simp add: haversine_via_a)

theorem haversine_range_witness:
  "haversine 0 0 0 0 = Inr 0 \<and> (0::real) \<le> 0 \<and> (0::real) \<le> pi * 6371"
  using haversine_range [of 0 0 0 0 0]
  by (simp add: haversine_via_a hav_a_same_point haversine_of_a_zero)

text \<open>
  C6. \<^verbatim>\<open>haversine\<close> is symmetric in its two points.
\<close>

theorem haversine_symmetric:
  "haversine lat1 lon1 lat2 lon2 = haversine lat2 lon2 lat1 lon1"
  by (simp add: haversine_via_a hav_a_commute [of lat1 lon1 lat2 lon2])

text \<open>
  C7. \<^verbatim>\<open>haversine\<close> of two identical points returns exactly 0.
\<close>

theorem haversine_identity:
  "haversine lat lon lat lon = Inr 0"
  by (simp add: haversine_via_a hav_a_same_point haversine_of_a_zero)

text \<open>
  C8, as the claim states it: every time value the module returns is non-negative. It
  fails for \<^verbatim>\<open>travel_time_s\<close>, which accepts a negative distance: one kilometre
  backwards at 1 km/h gives \<open>-3600\<close> seconds.
\<close>

theorem time_nonneg_counterexample:
  "travel_time_s (- 1) 1 = Inr (- 3600) \<and> \<not> (0::real) \<le> - 3600"
  by (simp add: travel_time_s_def)

text \<open>
  C8, amended. For every accepted input (\<open>speed_kmh > 0\<close>) with \<open>dist_km \<ge> 0\<close>, the
  result of \<^verbatim>\<open>travel_time_s\<close> is non-negative; and the second component of every pair
  that \<^verbatim>\<open>distance_and_time\<close> returns is non-negative.
\<close>

theorem time_nonneg_amended:
  "(0 \<le> dist_km \<and> 0 < speed_kmh \<longrightarrow>
      (\<exists>t. travel_time_s dist_km speed_kmh = Inr t \<and> 0 \<le> t))
   \<and> (distance_and_time lat1 lon1 lat2 lon2 speed_kmh = Inr (d, t') \<longrightarrow> 0 \<le> t')"
proof (intro conjI impI)
  assume "0 \<le> dist_km \<and> 0 < speed_kmh"
  then show "\<exists>t. travel_time_s dist_km speed_kmh = Inr t \<and> 0 \<le> t"
    by (simp add: travel_time_s_pos)
next
  assume "distance_and_time lat1 lon1 lat2 lon2 speed_kmh = Inr (d, t')"
  from distance_and_time_Inr [OF this]
  have h: "haversine lat1 lon1 lat2 lon2 = Inr d" and t: "travel_time_s d speed_kmh = Inr t'"
    by blast+
  have d0: "0 \<le> d"
    using haversine_of_a_range [of "hav_a lat1 lon1 lat2 lon2" d] h
    by (simp add: haversine_via_a)
  have pos: "0 < speed_kmh"
    using t by (auto simp: travel_time_s_def split: if_splits)
  then have "t' = d / speed_kmh * 3600"
    using t by (simp add: travel_time_s_pos)
  then show "0 \<le> t'" using d0 pos by simp
qed

theorem time_nonneg_amended_witness:
  "(0::real) \<le> 100 \<and> (0::real) < 50 \<and> (\<exists>t. travel_time_s 100 50 = Inr t \<and> 0 \<le> t)
   \<and> distance_and_time 0 0 0 180 50 = Inr (pi * 6371, pi * 6371 / 50 * 3600)
   \<and> 0 \<le> pi * 6371 / 50 * 3600"
  using time_nonneg_amended [of 100 50 0 0 0 180 "pi * 6371" "pi * 6371 / 50 * 3600"]
  by (simp add: distance_and_time_def haversine_antipodal travel_time_s_pos)

text \<open>
  C9. \<^verbatim>\<open>travel_time_s\<close> is antitone in the speed for non-negative distances: for
  \<open>dist_km \<ge> 0\<close> and \<open>0 < s1 \<le> s2\<close>, both calls return and the time at \<open>s2\<close> is at most
  the time at \<open>s1\<close>.
\<close>

theorem travel_time_s_antitone:
  "0 \<le> dist_km \<Longrightarrow> 0 < s1 \<Longrightarrow> s1 \<le> s2 \<Longrightarrow>
     \<exists>t1 t2. travel_time_s dist_km s1 = Inr t1 \<and> travel_time_s dist_km s2 = Inr t2
       \<and> t2 \<le> t1"
  by (simp add: travel_time_s_pos frac_le)

theorem travel_time_s_antitone_witness:
  "(0::real) \<le> 100 \<and> (0::real) < 50 \<and> (50::real) \<le> 100
   \<and> (\<exists>t1 t2. travel_time_s 100 50 = Inr t1 \<and> travel_time_s 100 100 = Inr t2
         \<and> t2 \<le> t1)"
  using travel_time_s_antitone [of 100 50 100] by simp

text \<open>
  C10. Over exact real arithmetic, \<^verbatim>\<open>haversine\<close> is unchanged when 360 degrees are
  added to the first longitude, and likewise to the second.
\<close>

theorem haversine_lon_full_turn:
  "haversine lat1 (lon1 + 360) lat2 lon2 = haversine lat1 lon1 lat2 lon2
   \<and> haversine lat1 lon1 lat2 (lon2 + 360) = haversine lat1 lon1 lat2 lon2"
  by (simp add: haversine_via_a hav_a_lon1_full_turn hav_a_lon2_full_turn)

end
